theory Spec2Isabelle
  imports Main
begin

section \<open>Messages and the chat message history\<close>

text \<open>
  The notebooks build their histories from \<^verbatim>\<open>HumanMessage(content=...)\<close> and
  \<^verbatim>\<open>AIMessage(content=...)\<close>; the prompt templates add a system message. A message
  is a role together with its text.
\<close>

datatype message =
    SystemMessage string
  | HumanMessage string
  | AIMessage string

fun content :: "message \<Rightarrow> string" where
  "content (SystemMessage c) = c"
| "content (HumanMessage c) = c"
| "content (AIMessage c) = c"

text \<open>Python exceptions that the modelled code can raise, as values.\<close>

datatype py_error =
    KeyError
  | TypeError
  | ZeroDivisionError
  | OverflowError
  | ValidationError
  | ProviderFailure string

text \<open>
  Modelled from the spec: the class \<^verbatim>\<open>ChatMessageHistory\<close> (imported by the notebook
  from \<^verbatim>\<open>langchain.memory\<close>) is not among the sources; only its calls are. The spec
  gives it an ordered message sequence, empty when first created, \<^verbatim>\<open>append\<close> adding
  one message at the end, \<^verbatim>\<open>read\<close> returning the whole sequence without changing it,
  and \<^verbatim>\<open>clear\<close> discarding every message. The recorded notebook outputs agree: the
  four messages added in cell 10 are printed in call order, and the messages read
  before \<^verbatim>\<open>clear()\<close> in \<^verbatim>\<open>trim_messages\<close> are still available to be re-added (cell 14),
  so a read yields a value that a later \<^verbatim>\<open>clear\<close> does not alter.
\<close>

record ChatMessageHistory =
  messages :: "message list"

definition ChatMessageHistory_new :: ChatMessageHistory where
  "ChatMessageHistory_new = \<lparr>messages = []\<rparr>"

definition add_message :: "message \<Rightarrow> ChatMessageHistory \<Rightarrow> ChatMessageHistory" where
  "add_message m h = h\<lparr>messages := messages h @ [m]\<rparr>"

definition add_user_message :: "string \<Rightarrow> ChatMessageHistory \<Rightarrow> ChatMessageHistory" where
  "add_user_message c h = add_message (HumanMessage c) h"

text \<open>
  \<^verbatim>\<open>add_ai_message\<close> is called with a string (\<^verbatim>\<open>add_ai_message("Hello!")\<close>) and with the
  message returned by the chain (\<^verbatim>\<open>add_ai_message(response)\<close>).
\<close>

datatype str_or_message = Str string | Msg message

fun add_ai_message :: "str_or_message \<Rightarrow> ChatMessageHistory \<Rightarrow> ChatMessageHistory" where
  "add_ai_message (Str c) h = add_message (AIMessage c) h"
| "add_ai_message (Msg m) h = add_message m h"

definition clear :: "ChatMessageHistory \<Rightarrow> ChatMessageHistory" where
  "clear h = h\<lparr>messages := []\<rparr>"

definition read :: "ChatMessageHistory \<Rightarrow> message list \<times> ChatMessageHistory" where
  "read h = (messages h, h)"

definition add_messages :: "message list \<Rightarrow> ChatMessageHistory \<Rightarrow> ChatMessageHistory" where
  "add_messages ms h = foldl (\<lambda>h' m. add_message m h') h ms"

section \<open>The notebook's global state\<close>

text \<open>
  \<^verbatim>\<open>demo_ephemeral_chat_history\<close> is a module-level variable that the notebook's
  functions read and mutate: it is passed and returned explicitly. The chat model
  \<^verbatim>\<open>chat = ChatOpenAI(...)\<close> is an external call: it is a parameter
  \<open>chat\<close>, a function from the prompt's messages to a message or an error, and every
  invocation is recorded in \<open>chat_calls\<close> (the prompts sent, in call order), so that
  "the model was not called" can be stated.
\<close>

record notebook =
  demo_ephemeral_chat_history :: ChatMessageHistory
  chat_calls :: "message list list"

type_synonym chat_model = "message list \<Rightarrow> py_error + message"

definition chat_invoke :: "chat_model \<Rightarrow> message list \<Rightarrow> notebook \<Rightarrow> (py_error + message) \<times> notebook" where
  "chat_invoke chat prompt_messages s =
     (chat prompt_messages, s\<lparr>chat_calls := chat_calls s @ [prompt_messages]\<rparr>)"

definition stored :: "notebook \<Rightarrow> message list" where
  "stored s = messages (demo_ephemeral_chat_history s)"

section \<open>Trimming\<close>

text \<open>
  Python's \<^verbatim>\<open>xs[i:]\<close>: a negative start counts from the end and is clamped at 0, a
  start beyond the end gives the empty list.
\<close>

definition slice_from :: "int \<Rightarrow> 'a list \<Rightarrow> 'a list" where
  "slice_from i xs =
     (let n = int (length xs);
          start = (if i < 0 then max (n + i) 0 else min i n)
      in drop (nat start) xs)"

text \<open>
  \<^verbatim>\<open>
  def trim_messages(chain_input):
      stored_messages = demo_ephemeral_chat_history.messages
      if len(stored_messages) <= 2:
          return False
      demo_ephemeral_chat_history.clear()
      for message in stored_messages[-2:]:
          demo_ephemeral_chat_history.add_message(message)
      return True
  \<close>
  The argument is not used, and the bound 2 is a literal of the function.
\<close>

definition trim_messages :: "'ci \<Rightarrow> notebook \<Rightarrow> bool \<times> notebook" where
  "trim_messages chain_input s =
     (let stored_messages = messages (demo_ephemeral_chat_history s) in
      if length stored_messages \<le> 2 then (False, s)
      else
        (True,
         s\<lparr>demo_ephemeral_chat_history :=
              foldl (\<lambda>h message. add_message message h)
                (clear (demo_ephemeral_chat_history s))
                (slice_from (- 2) stored_messages)\<rparr>))"

text \<open>The last \<open>n\<close> elements of a sequence, in their order.\<close>

definition last_n :: "nat \<Rightarrow> 'a list \<Rightarrow> 'a list" where
  "last_n n xs = drop (length xs - n) xs"

section \<open>Summarising\<close>

text \<open>
  \<^verbatim>\<open>
  summarization_prompt = ChatPromptTemplate.from_messages(
      [MessagesPlaceholder(variable_name="chat_history"),
       ("user", "Distill the above chat messages into a single summary message. ...")])
  summarization_chain = summarization_prompt | chat
  \<close>
  The prompt is the stored messages followed by the instruction as a user message; the
  chain sends it to the chat model.
\<close>

definition summarization_prompt :: "message list \<Rightarrow> message list" where
  "summarization_prompt chat_history =
     chat_history @
     [HumanMessage ''Distill the above chat messages into a single summary message. Include as many specific details as you can.'']"

definition summarization_chain ::
    "chat_model \<Rightarrow> message list \<Rightarrow> notebook \<Rightarrow> (py_error + message) \<times> notebook" where
  "summarization_chain chat chat_history s = chat_invoke chat (summarization_prompt chat_history) s"

text \<open>
  \<^verbatim>\<open>
  def summarize_messages(chain_input):
      stored_messages = demo_ephemeral_chat_history.messages
      if len(stored_messages) == 0:
          return False
      ...
      summary_message = summarization_chain.invoke({"chat_history": stored_messages})
      demo_ephemeral_chat_history.clear()
      demo_ephemeral_chat_history.add_message(summary_message)
      return True
  \<close>
  There is no \<^verbatim>\<open>try\<close>: an exception of the chain leaves the function at the call, with
  the state as it is there.
\<close>

definition summarize_messages ::
    "chat_model \<Rightarrow> 'ci \<Rightarrow> notebook \<Rightarrow> (py_error + bool) \<times> notebook" where
  "summarize_messages chat chain_input s =
     (let stored_messages = messages (demo_ephemeral_chat_history s) in
      if length stored_messages = 0 then (Inr False, s)
      else
        (case summarization_chain chat stored_messages s of
           (Inl e, s1) \<Rightarrow> (Inl e, s1)
         | (Inr summary_message, s1) \<Rightarrow>
             (Inr True,
              s1\<lparr>demo_ephemeral_chat_history :=
                   add_message summary_message (clear (demo_ephemeral_chat_history s1))\<rparr>)))"

section \<open>A conversational turn\<close>

text \<open>
  \<^verbatim>\<open>
  prompt = ChatPromptTemplate.from_messages(
      [("system", "You are a helpful assistant. Answer all questions to the best of your ability."),
       MessagesPlaceholder(variable_name="messages")])
  chain = prompt | chat
  \<close>
\<close>

definition prompt :: "message list \<Rightarrow> message list" where
  "prompt msgs =
     SystemMessage ''You are a helpful assistant. Answer all questions to the best of your ability.'' # msgs"

definition chain ::
    "chat_model \<Rightarrow> message list \<Rightarrow> notebook \<Rightarrow> (py_error + message) \<times> notebook" where
  "chain chat msgs s = chat_invoke chat (prompt msgs) s"

text \<open>
  The turn that the notebook writes out by hand, with the input as a parameter:
  \<^verbatim>\<open>
  demo_ephemeral_chat_history.add_user_message(input1)
  response = chain.invoke({"messages": demo_ephemeral_chat_history.messages})
  demo_ephemeral_chat_history.add_ai_message(response)
  \<close>
  The user message is stored before the chain is invoked; when the chain raises, the
  third statement is not reached.
\<close>

definition manual_turn ::
    "chat_model \<Rightarrow> string \<Rightarrow> notebook \<Rightarrow> (py_error + message) \<times> notebook" where
  "manual_turn chat input1 s =
     (let s1 = s\<lparr>demo_ephemeral_chat_history :=
                    add_user_message input1 (demo_ephemeral_chat_history s)\<rparr> in
      case chain chat (messages (demo_ephemeral_chat_history s1)) s1 of
        (Inl e, s2) \<Rightarrow> (Inl e, s2)
      | (Inr response, s2) \<Rightarrow>
          (Inr response,
           s2\<lparr>demo_ephemeral_chat_history :=
                add_ai_message (Msg response) (demo_ephemeral_chat_history s2)\<rparr>))"

text \<open>
  Modelled from the spec: the class \<^verbatim>\<open>RunnableWithMessageHistory\<close> (imported by the
  notebook from \<^verbatim>\<open>langchain_core.runnables.history\<close>) is not among the sources; only
  its construction and its calls are:
  \<^verbatim>\<open>
  prompt = ChatPromptTemplate.from_messages(
      [("system", "You are a helpful assistant. Answer all questions to the best of your ability."),
       MessagesPlaceholder(variable_name="chat_history"),
       ("human", "{input}")])
  chain = prompt | chat
  chain_with_message_history = RunnableWithMessageHistory(
      chain, lambda session_id: demo_ephemeral_chat_history,
      input_messages_key="input", history_messages_key="chat_history")
  \<close>
  The spec's turn reads the history, supplies it with the input as the context of the
  turn function, and appends the input and the response to the history; a failing turn
  function leaves the history in its state before the call. The history that the
  notebook records after a wrapped turn (cell 14) has the input and the response at its
  end, in that order. The session id is not used by the notebook's factory.
\<close>

definition prompt_with_history :: "message list \<Rightarrow> string \<Rightarrow> message list" where
  "prompt_with_history chat_history user_input =
     SystemMessage ''You are a helpful assistant. Answer all questions to the best of your ability.'' #
     chat_history @ [HumanMessage user_input]"

definition chain_with_message_history ::
    "chat_model \<Rightarrow> string \<Rightarrow> notebook \<Rightarrow> (py_error + message) \<times> notebook" where
  "chain_with_message_history chat user_input s =
     (let chat_history = messages (demo_ephemeral_chat_history s) in
      case chat_invoke chat (prompt_with_history chat_history user_input) s of
        (Inl e, s1) \<Rightarrow> (Inl e, s1)
      | (Inr response, s1) \<Rightarrow>
          (Inr response,
           s1\<lparr>demo_ephemeral_chat_history :=
                add_message response
                  (add_message (HumanMessage user_input) (demo_ephemeral_chat_history s1))\<rparr>))"

section \<open>Tools and their dispatch\<close>

text \<open>
  Values that occur in the parsed model output and in tool calls. A float is only
  produced by \<^verbatim>\<open>base**exponent\<close> with a negative exponent; its digits are not
  modelled, the value is kept as the power it stands for: \<open>PyFloatPow base exponent\<close>
  is the float that Python computes for that power, rounded, and 0.0 where it underflows.
\<close>

datatype py_value =
    PyNone
  | PyInt int
  | PyStr string
  | PyFloatPow int int
  | PyDict "(string \<times> py_value) list"

type_synonym dict = "(string \<times> py_value) list"

text \<open>\<^verbatim>\<open>d[k]\<close> raises \<^verbatim>\<open>KeyError\<close> on a missing key.\<close>

definition getitem :: "('k \<times> 'v) list \<Rightarrow> 'k \<Rightarrow> py_error + 'v" where
  "getitem d k = (case map_of d k of None \<Rightarrow> Inl KeyError | Some v \<Rightarrow> Inr v)"

text \<open>\<^verbatim>\<open>d[k] = v\<close> replaces the value of a present key in place and adds a new key at the end.\<close>

fun setitem :: "('k \<times> 'v) list \<Rightarrow> 'k \<Rightarrow> 'v \<Rightarrow> ('k \<times> 'v) list" where
  "setitem [] k v = [(k, v)]"
| "setitem ((k', v') # d) k v =
     (if k' = k then (k, v) # d else (k', v') # setitem d k v)"

text \<open>
  A tool made by the \<^verbatim>\<open>@tool\<close> decorator: its name is the function's name, and
  \<^verbatim>\<open>invoke\<close> takes the dictionary of arguments. The decorator belongs to the library;
  the model of \<^verbatim>\<open>invoke\<close> below reads the two declared \<^verbatim>\<open>int\<close> parameters from the
  dictionary. A missing parameter and an input that is not a dictionary are a
  \<^verbatim>\<open>ValidationError\<close>. The library also converts some values that are not integers (the
  string \<^verbatim>\<open>'4'\<close> to 4); that conversion is not modelled, such an argument is reported as a
  \<^verbatim>\<open>ValidationError\<close> here, and the tools below are evaluated on integer arguments only.
\<close>

record tool =
  name :: string
  invoke :: "py_value \<Rightarrow> py_error + py_value"

definition invoke_int2 ::
    "string \<Rightarrow> string \<Rightarrow> (int \<Rightarrow> int \<Rightarrow> py_error + py_value) \<Rightarrow> py_value \<Rightarrow> py_error + py_value" where
  "invoke_int2 p1 p2 f args =
     (case args of
        PyDict d \<Rightarrow>
          (case (map_of d p1, map_of d p2) of
             (Some (PyInt a), Some (PyInt b)) \<Rightarrow> f a b
           | _ \<Rightarrow> Inl ValidationError)
      | _ \<Rightarrow> Inl ValidationError)"

text \<open>
  \<^verbatim>\<open>
  def multiply(first_int: int, second_int: int) -> int:  return first_int * second_int
  def add(first_int: int, second_int: int) -> int:       return first_int + second_int
  def exponentiate(base: int, exponent: int) -> int:     return base**exponent
  \<close>
  On Python integers \<^verbatim>\<open>**\<close> with a negative exponent converts both operands to floats
  and gives a float: it raises \<^verbatim>\<open>OverflowError\<close> when an operand is too large for a float,
  and then \<^verbatim>\<open>ZeroDivisionError\<close> when the base is 0. An integer is too large when it
  rounds (to nearest, ties to even) beyond the largest double, \<open>2 ^ 1024 - 2 ^ 971\<close>.
\<close>

definition float_overflow :: "int \<Rightarrow> bool" where
  "float_overflow n \<longleftrightarrow> 2 ^ 1024 - 2 ^ 970 \<le> \<bar>n\<bar>"

definition multiply :: tool where
  "multiply =
     \<lparr>name = ''multiply'',
      invoke = invoke_int2 ''first_int'' ''second_int''
                 (\<lambda>first_int second_int. Inr (PyInt (first_int * second_int)))\<rparr>"

definition add :: tool where
  "add =
     \<lparr>name = ''add'',
      invoke = invoke_int2 ''first_int'' ''second_int''
                 (\<lambda>first_int second_int. Inr (PyInt (first_int + second_int)))\<rparr>"

definition exponentiate :: tool where
  "exponentiate =
     \<lparr>name = ''exponentiate'',
      invoke = invoke_int2 ''base'' ''exponent''
                 (\<lambda>base exponent.
                    if 0 \<le> exponent then Inr (PyInt (base ^ nat exponent))
                    else if float_overflow base \<or> float_overflow exponent then Inl OverflowError
                    else if base = 0 then Inl ZeroDivisionError
                    else Inr (PyFloatPow base exponent))\<rparr>"

text \<open>
  \<^verbatim>\<open>tool_map = {tool.name: tool for tool in tools}\<close>: a later tool with the same name
  replaces an earlier one.
\<close>

definition tool_map :: "tool list \<Rightarrow> (string \<times> tool) list" where
  "tool_map tools = foldl (\<lambda>m t. setitem m (name t) t) [] tools"

text \<open>
  \<^verbatim>\<open>tool_map[key]\<close> with a key taken from parsed output: a dictionary is not hashable
  (\<^verbatim>\<open>TypeError\<close>); any other value that is not one of the names is a \<^verbatim>\<open>KeyError\<close>.
\<close>

definition tool_map_getitem :: "(string \<times> tool) list \<Rightarrow> py_value \<Rightarrow> py_error + tool" where
  "tool_map_getitem m key =
     (case key of
        PyDict _ \<Rightarrow> Inl TypeError
      | PyStr s \<Rightarrow> getitem m s
      | _ \<Rightarrow> Inl KeyError)"

text \<open>\<^verbatim>\<open>itemgetter("arguments") | chosen_tool\<close>, the chain that \<^verbatim>\<open>tool_chain\<close> returns.\<close>

definition itemgetter_arguments_pipe :: "tool \<Rightarrow> dict \<Rightarrow> py_error + py_value" where
  "itemgetter_arguments_pipe chosen_tool model_output =
     (case getitem model_output ''arguments'' of
        Inl e \<Rightarrow> Inl e
      | Inr arguments \<Rightarrow> invoke chosen_tool arguments)"

text \<open>
  \<^verbatim>\<open>
  def tool_chain(model_output):
      tool_map = {tool.name: tool for tool in tools}
      chosen_tool = tool_map[model_output["name"]]
      return itemgetter("arguments") | chosen_tool
  \<close>
  The global \<^verbatim>\<open>tools\<close> is the first argument.
\<close>

definition tool_chain :: "tool list \<Rightarrow> dict \<Rightarrow> py_error + (dict \<Rightarrow> py_error + py_value)" where
  "tool_chain tools model_output =
     (case getitem model_output ''name'' of
        Inl e \<Rightarrow> Inl e
      | Inr key \<Rightarrow>
          (case tool_map_getitem (tool_map tools) key of
             Inl e \<Rightarrow> Inl e
           | Inr chosen_tool \<Rightarrow> Inr (itemgetter_arguments_pipe chosen_tool)))"

text \<open>
  \<^verbatim>\<open>
  def call_tools(msg: AIMessage) -> Runnable:
      tool_map = {tool.name: tool for tool in tools}
      tool_calls = msg.tool_calls.copy()
      for tool_call in tool_calls:
          tool_call["output"] = tool_map[tool_call["name"]].invoke(tool_call["args"])
      return tool_calls
  \<close>
  One step of the loop evaluates the right-hand side (name, tool, args, call) and then
  stores the output in the tool call; the first exception ends the loop.
\<close>

definition call_tool :: "(string \<times> tool) list \<Rightarrow> dict \<Rightarrow> py_error + dict" where
  "call_tool tm tool_call =
     (case getitem tool_call ''name'' of
        Inl e \<Rightarrow> Inl e
      | Inr key \<Rightarrow>
          (case tool_map_getitem tm key of
             Inl e \<Rightarrow> Inl e
           | Inr t \<Rightarrow>
               (case getitem tool_call ''args'' of
                  Inl e \<Rightarrow> Inl e
                | Inr args \<Rightarrow>
                    (case invoke t args of
                       Inl e \<Rightarrow> Inl e
                     | Inr out \<Rightarrow> Inr (setitem tool_call ''output'' out)))))"

fun call_tools_loop :: "(string \<times> tool) list \<Rightarrow> dict list \<Rightarrow> py_error + dict list" where
  "call_tools_loop tm [] = Inr []"
| "call_tools_loop tm (tool_call # rest) =
     (case call_tool tm tool_call of
        Inl e \<Rightarrow> Inl e
      | Inr tool_call' \<Rightarrow>
          (case call_tools_loop tm rest of
             Inl e \<Rightarrow> Inl e
           | Inr rest' \<Rightarrow> Inr (tool_call' # rest')))"

record tool_calling_message =
  tool_calls :: "dict list"

definition call_tools :: "tool list \<Rightarrow> tool_calling_message \<Rightarrow> py_error + dict list" where
  "call_tools tools msg = call_tools_loop (tool_map tools) (tool_calls msg)"

text \<open>The two tool lists of the notebooks.\<close>

definition tools_without_function_calling :: "tool list" where
  "tools_without_function_calling = [add, exponentiate, multiply]"

definition tools_parallel :: "tool list" where
  "tools_parallel = [multiply, exponentiate, add]"

text \<open>
  The tool registered under a name, applied to arguments: what the specification calls
  "the named tool applied to the entry's args".
\<close>

definition named_tool_applied :: "tool list \<Rightarrow> string \<Rightarrow> py_value \<Rightarrow> py_error + py_value" where
  "named_tool_applied tools s args =
     (case map_of (tool_map tools) s of None \<Rightarrow> Inl KeyError | Some t \<Rightarrow> invoke t args)"

definition tool_call_ok :: "tool list \<Rightarrow> dict \<Rightarrow> bool" where
  "tool_call_ok tools tc \<longleftrightarrow>
     (\<exists>s a v. map_of tc ''name'' = Some (PyStr s) \<and> s \<in> name ` set tools \<and>
        map_of tc ''args'' = Some a \<and> named_tool_applied tools s a = Inr v)"

definition entry_ok :: "tool list \<Rightarrow> dict \<Rightarrow> dict \<Rightarrow> bool" where
  "entry_ok tools tc r \<longleftrightarrow>
     (\<exists>s a v. map_of tc ''name'' = Some (PyStr s) \<and> map_of tc ''args'' = Some a \<and>
        named_tool_applied tools s a = Inr v \<and>
        map_of r ''output'' = Some v \<and>
        (\<forall>k. k \<noteq> ''output'' \<longrightarrow> map_of r k = map_of tc k))"

section \<open>States and inputs of the notebooks' runs\<close>

text \<open>The history that cells 10 and 17 of the memory notebook build.\<close>

definition preloaded_session :: notebook where
  "preloaded_session =
     \<lparr>demo_ephemeral_chat_history =
        add_ai_message (Str ''Fine thanks!'')
          (add_user_message ''How are you today?''
            (add_ai_message (Str ''Hello!'')
              (add_user_message ''Hey there! I'm Nemo.'' ChatMessageHistory_new))),
      chat_calls = []\<rparr>"

definition nemo_session :: notebook where
  "nemo_session =
     \<lparr>demo_ephemeral_chat_history = \<lparr>messages = [HumanMessage ''Hi I'm Nemo'']\<rparr>,
      chat_calls = []\<rparr>"

definition short_session :: notebook where
  "short_session =
     \<lparr>demo_ephemeral_chat_history =
        \<lparr>messages = [HumanMessage ''Hey there! I'm Nemo.'', AIMessage ''Hello!'']\<rparr>,
      chat_calls = []\<rparr>"

definition three_session :: notebook where
  "three_session =
     \<lparr>demo_ephemeral_chat_history =
        \<lparr>messages = [HumanMessage ''Hey there! I'm Nemo.'', AIMessage ''Hello!'',
                     HumanMessage ''How are you today?'']\<rparr>,
      chat_calls = []\<rparr>"

definition empty_session :: notebook where
  "empty_session = \<lparr>demo_ephemeral_chat_history = ChatMessageHistory_new, chat_calls = []\<rparr>"

text \<open>Chat models for the runs: the answers recorded in the notebook, and a provider that fails.\<close>

definition nemo_chat :: chat_model where
  "nemo_chat prompt_messages = Inr (AIMessage ''Your name is Nemo.'')"

definition summary_chat :: chat_model where
  "summary_chat prompt_messages =
     Inr (AIMessage ''The conversation is between Nemo and an AI. Nemo introduces himself and the AI responds with a greeting. Nemo then asks the AI how it is doing, and the AI responds that it is fine.'')"

definition failing_chat :: chat_model where
  "failing_chat prompt_messages = Inl (ProviderFailure ''timeout'')"

text \<open>The tool calls of the parallel-calls notebook (cell 9), and a call that divides by zero.\<close>

definition parallel_msg :: tool_calling_message where
  "parallel_msg =
     \<lparr>tool_calls =
        [[(''name'', PyStr ''multiply''),
          (''args'', PyDict [(''first_int'', PyInt 23), (''second_int'', PyInt 7)]),
          (''id'', PyStr ''call_22tgOrsVLyLMsl2RLbUhtycw'')],
         [(''name'', PyStr ''multiply''),
          (''args'', PyDict [(''first_int'', PyInt 5), (''second_int'', PyInt 18)]),
          (''id'', PyStr ''call_EbKHEG3TjqBhEwb7aoxUtgzf'')],
         [(''name'', PyStr ''add''),
          (''args'', PyDict [(''first_int'', PyInt 1000000), (''second_int'', PyInt 1000000000)]),
          (''id'', PyStr ''call_LUhu2IT3vINxlTc5fCVY6Nhi'')],
         [(''name'', PyStr ''exponentiate''),
          (''args'', PyDict [(''base'', PyInt 37), (''exponent'', PyInt 3)]),
          (''id'', PyStr ''call_bnCZIXelOKkmcyd4uGXId9Ct'')]]\<rparr>"

definition zero_power_msg :: tool_calling_message where
  "zero_power_msg =
     \<lparr>tool_calls =
        [[(''name'', PyStr ''exponentiate''),
          (''args'', PyDict [(''base'', PyInt 0), (''exponent'', PyInt (- 1))]),
          (''id'', PyStr ''call_0'')]]\<rparr>"

definition add_output :: dict where
  "add_output =
     [(''name'', PyStr ''add''),
      (''arguments'', PyDict [(''first_int'', PyInt 3), (''second_int'', PyInt 1132)])]"


section \<open>Basic facts\<close>

lemma messages_add_messages: "messages (add_messages ms h) = messages h @ ms"
  unfolding add_messages_def
  by (induction ms arbitrary: h) (simp_all add: add_message_def)

lemma messages_foldl_add_message:
  "messages (foldl (\<lambda>h m. add_message m h) h ms) = messages h @ ms"
  by (induction ms arbitrary: h) (simp_all add: add_message_def)

lemma slice_from_neg: "0 < k \<Longrightarrow> slice_from (- int k) xs = drop (length xs - k) xs"
  by (auto simp: slice_from_def Let_def max_def nat_diff_distrib')

lemma stored_trim_messages:
  "stored (snd (trim_messages ci s)) =
     (if length (stored s) \<le> 2 then stored s else last_n 2 (stored s))"
proof -
  have "slice_from (- 2) (stored s) = drop (length (stored s) - 2) (stored s)"
    using slice_from_neg [of 2 "stored s"] by simp
  then show ?thesis
    by (simp add: trim_messages_def stored_def Let_def messages_foldl_add_message
        clear_def last_n_def)
qed

lemma stored_preloaded_session:
  "stored preloaded_session =
     [HumanMessage ''Hey there! I'm Nemo.'', AIMessage ''Hello!'',
      HumanMessage ''How are you today?'', AIMessage ''Fine thanks!'']"
  by (simp add: preloaded_session_def stored_def add_user_message_def add_message_def
      ChatMessageHistory_new_def)

text \<open>
  The two turn paths when the chat model fails. The hand-written turn has already
  stored the request; the wrapped turn has stored nothing.
\<close>

lemma manual_turn_failure_stores_request:
  "fst (manual_turn chat input1 s) = Inl e \<Longrightarrow>
     stored (snd (manual_turn chat input1 s)) = stored s @ [HumanMessage input1]"
  by (auto simp: manual_turn_def chain_def chat_invoke_def stored_def
      Let_def add_message_def add_user_message_def split: sum.splits)

lemma chain_with_message_history_failure_keeps_history:
  "fst (chain_with_message_history chat user_input s) = Inl e \<Longrightarrow>
     stored (snd (chain_with_message_history chat user_input s)) = stored s"
  by (auto simp: chain_with_message_history_def chat_invoke_def stored_def
      Let_def add_message_def split: sum.splits)

lemma chain_with_message_history_success:
  "chat (prompt_with_history (stored s) user_input) = Inr response \<Longrightarrow>
     fst (chain_with_message_history chat user_input s) = Inr response \<and>
     stored (snd (chain_with_message_history chat user_input s)) =
       stored s @ [HumanMessage user_input, response]"
  by (auto simp: chain_with_message_history_def chat_invoke_def stored_def
      Let_def add_message_def)

lemma map_of_setitem: "map_of (setitem d k v) = (map_of d)(k \<mapsto> v)"
  by (induction d) auto

lemma map_of_foldl_setitem:
  "map_of (foldl (\<lambda>m t. setitem m (name t) t) acc ts) =
     foldl (\<lambda>m t. m(name t \<mapsto> t)) (map_of acc) ts"
  by (induction ts arbitrary: acc) (simp_all add: map_of_setitem)

lemma foldl_upd_registered:
  "s \<in> name ` set ts \<Longrightarrow>
     \<exists>t\<in>set ts. name t = s \<and> foldl (\<lambda>m t. m(name t \<mapsto> t)) m0 ts s = Some t"
  by (induction ts rule: rev_induct) auto

lemma foldl_upd_unregistered:
  "s \<notin> name ` set ts \<Longrightarrow> foldl (\<lambda>m t. m(name t \<mapsto> t)) m0 ts s = m0 s"
  by (induction ts rule: rev_induct) auto

lemma tool_map_registered:
  "s \<in> name ` set tools \<Longrightarrow> \<exists>t\<in>set tools. name t = s \<and> map_of (tool_map tools) s = Some t"
  unfolding tool_map_def map_of_foldl_setitem by (rule foldl_upd_registered)

lemma tool_map_unregistered:
  "s \<notin> name ` set tools \<Longrightarrow> map_of (tool_map tools) s = None"
  unfolding tool_map_def map_of_foldl_setitem by (simp add: foldl_upd_unregistered)

lemma tool_map_Some:
  "map_of (tool_map tools) s = Some t \<Longrightarrow> t \<in> set tools \<and> name t = s"
  using tool_map_registered [of s tools] tool_map_unregistered [of s tools]
  by (cases "s \<in> name ` set tools") auto

lemma named_tool_applied_registered:
  "s \<in> name ` set tools \<Longrightarrow>
     \<exists>t\<in>set tools. name t = s \<and> named_tool_applied tools s a = invoke t a"
  using tool_map_registered [of s tools] by (auto simp: named_tool_applied_def)


lemma call_tool_ok:
  assumes "map_of tc ''name'' = Some (PyStr s)" "s \<in> name ` set tools"
    "map_of tc ''args'' = Some a" "named_tool_applied tools s a = Inr v"
  shows "call_tool (tool_map tools) tc = Inr (setitem tc ''output'' v)"
proof -
  obtain t where "map_of (tool_map tools) s = Some t"
    using assms(2) tool_map_registered by blast
  with assms show ?thesis
    by (simp add: call_tool_def getitem_def tool_map_getitem_def named_tool_applied_def)
qed

lemma call_tools_loop_ok:
  "\<forall>tc\<in>set tcs. tool_call_ok tools tc \<Longrightarrow>
     \<exists>res. call_tools_loop (tool_map tools) tcs = Inr res \<and>
           list_all2 (entry_ok tools) tcs res"
proof (induction tcs)
  case Nil
  then show ?case by simp
next
  case (Cons tc tcs)
  from Cons.prems obtain s a v where
    tc: "map_of tc ''name'' = Some (PyStr s)" "s \<in> name ` set tools"
      "map_of tc ''args'' = Some a" "named_tool_applied tools s a = Inr v"
    by (auto simp: tool_call_ok_def)
  then have 1: "call_tool (tool_map tools) tc = Inr (setitem tc ''output'' v)"
    by (rule call_tool_ok)
  have 2: "entry_ok tools tc (setitem tc ''output'' v)"
    unfolding entry_ok_def using tc by (auto simp: map_of_setitem)
  from Cons obtain res where "call_tools_loop (tool_map tools) tcs = Inr res"
    "list_all2 (entry_ok tools) tcs res" by auto
  with 1 2 show ?case by simp
qed

lemma tool_map_tools_parallel:
  "tool_map tools_parallel =
     [(''multiply'', multiply), (''exponentiate'', exponentiate), (''add'', add)]"
  by (simp add: tool_map_def tools_parallel_def multiply_def exponentiate_def add_def)

lemma names_tools_parallel:
  "name ` set tools_parallel = {''multiply'', ''exponentiate'', ''add''}"
  by (simp add: tools_parallel_def multiply_def exponentiate_def add_def)


section \<open>The notebooks' recorded runs\<close>

text \<open>
  The model reproduces the outputs that the notebooks record: the tool calls of the
  parallel-calls notebook with their outputs 161, 90, 1001000000 and 50653, the answer
  1135 to "what's 3 plus 1132", and the summary that \<^verbatim>\<open>summarize_messages\<close> leaves
  as the only stored message.
\<close>

lemma call_tools_parallel_msg:
  "call_tools tools_parallel parallel_msg =
     Inr [[(''name'', PyStr ''multiply''),
          (''args'', PyDict [(''first_int'', PyInt 23), (''second_int'', PyInt 7)]),
          (''id'', PyStr ''call_22tgOrsVLyLMsl2RLbUhtycw''), (''output'', PyInt 161)],
         [(''name'', PyStr ''multiply''),
          (''args'', PyDict [(''first_int'', PyInt 5), (''second_int'', PyInt 18)]),
          (''id'', PyStr ''call_EbKHEG3TjqBhEwb7aoxUtgzf''), (''output'', PyInt 90)],
         [(''name'', PyStr ''add''),
          (''args'', PyDict [(''first_int'', PyInt 1000000), (''second_int'', PyInt 1000000000)]),
          (''id'', PyStr ''call_LUhu2IT3vINxlTc5fCVY6Nhi''), (''output'', PyInt 1001000000)],
         [(''name'', PyStr ''exponentiate''),
          (''args'', PyDict [(''base'', PyInt 37), (''exponent'', PyInt 3)]),
          (''id'', PyStr ''call_bnCZIXelOKkmcyd4uGXId9Ct''), (''output'', PyInt 50653)]]"
  by (simp add: call_tools_def tool_map_tools_parallel parallel_msg_def call_tool_def
      getitem_def tool_map_getitem_def multiply_def add_def exponentiate_def invoke_int2_def)

lemma tool_chain_add_output:
  "(case tool_chain tools_without_function_calling add_output of
      Inl e \<Rightarrow> Inl e | Inr subchain \<Rightarrow> subchain add_output) = Inr (PyInt 1135)"
  by (simp add: tool_chain_def tool_map_def tools_without_function_calling_def add_output_def
      getitem_def tool_map_getitem_def itemgetter_arguments_pipe_def
      multiply_def add_def exponentiate_def invoke_int2_def)

lemma summarize_messages_preloaded:
  "stored (snd (summarize_messages summary_chat () preloaded_session)) =
     [AIMessage ''The conversation is between Nemo and an AI. Nemo introduces himself and the AI responds with a greeting. Nemo then asks the AI how it is doing, and the AI responds that it is fine.'']"
  by (simp add: summarize_messages_def summarization_chain_def chat_invoke_def
      summary_chat_def stored_def add_message_def clear_def Let_def
      stored_preloaded_session [unfolded stored_def])

section \<open>The claims\<close>


text \<open>
  C1 (as amended). \<^verbatim>\<open>trim_messages\<close> has no parameter for the number of messages to
  keep: the number is the literal 2. On a history of more than 2 messages it returns
  \<^verbatim>\<open>True\<close> and leaves exactly the last 2 messages, in their order; on a history of at
  most 2 messages it returns \<^verbatim>\<open>False\<close> and changes nothing.
\<close>

theorem trim_messages_keeps_last_two:
  "(2 < length (stored s) \<longrightarrow>
      fst (trim_messages ci s) = True \<and>
      stored (snd (trim_messages ci s)) = last_n 2 (stored s) \<and>
      length (stored (snd (trim_messages ci s))) = 2 \<and>
      chat_calls (snd (trim_messages ci s)) = chat_calls s) \<and>
   (length (stored s) \<le> 2 \<longrightarrow> trim_messages ci s = (False, s))"
  using stored_trim_messages [of ci s]
  by (auto simp: trim_messages_def stored_def Let_def last_n_def)

theorem trim_messages_keeps_last_two_witness:
  "2 < length (stored preloaded_session) \<and>
   stored (snd (trim_messages () preloaded_session)) =
     [HumanMessage ''How are you today?'', AIMessage ''Fine thanks!''] \<and>
   length (stored short_session) \<le> 2 \<and>
   trim_messages () short_session = (False, short_session)"
proof -
  have long: "2 < length (stored preloaded_session)"
    by (simp add: stored_preloaded_session)
  have short: "length (stored short_session) \<le> 2"
    by (simp add: short_session_def stored_def)
  from long trim_messages_keeps_last_two [of preloaded_session "()"]
  have "stored (snd (trim_messages () preloaded_session)) = last_n 2 (stored preloaded_session)"
    by blast
  moreover from short trim_messages_keeps_last_two [of short_session "()"]
  have "trim_messages () short_session = (False, short_session)"
    by blast
  ultimately show ?thesis
    using long short by (simp add: stored_preloaded_session last_n_def)
qed

text \<open>
  C1 as it is written fails: it lets the caller choose how many messages to keep. With
  three stored messages and 1 to keep, the claim asks for the last message alone, and
  \<^verbatim>\<open>trim_messages\<close> leaves the last two.
\<close>

theorem trim_messages_keep_last_counterexample:
  "1 < length (stored three_session) \<and>
   stored (snd (trim_messages () three_session)) \<noteq> last_n 1 (stored three_session) \<and>
   stored (snd (trim_messages () three_session)) =
     [AIMessage ''Hello!'', HumanMessage ''How are you today?'']"
  by (simp add: trim_messages_def slice_from_def clear_def add_message_def last_n_def
      stored_def three_session_def Let_def)

text \<open>
  C2. On a non-empty history, when the summarization chain applied to the stored
  messages returns a message, \<^verbatim>\<open>summarize_messages\<close> returns \<^verbatim>\<open>True\<close> and leaves a
  history of length 1 whose only element is that message; the chat model has been
  called once, with the prompt built from the stored messages. On an empty history it
  returns \<^verbatim>\<open>False\<close>, the state is unchanged and the chat model has not been called.
\<close>

theorem summarize_messages_replaces_by_summary:
  "(stored s \<noteq> [] \<and> fst (summarization_chain chat (stored s) s) = Inr r \<longrightarrow>
      fst (summarize_messages chat ci s) = Inr True \<and>
      stored (snd (summarize_messages chat ci s)) = [r] \<and>
      length (stored (snd (summarize_messages chat ci s))) = 1 \<and>
      chat_calls (snd (summarize_messages chat ci s)) =
        chat_calls s @ [summarization_prompt (stored s)]) \<and>
   (stored s = [] \<longrightarrow>
      summarize_messages chat ci s = (Inr False, s) \<and>
      length (stored (snd (summarize_messages chat ci s))) = 0 \<and>
      chat_calls (snd (summarize_messages chat ci s)) = chat_calls s)"
  by (auto simp: summarize_messages_def summarization_chain_def chat_invoke_def stored_def
      Let_def add_message_def clear_def)

theorem summarize_messages_replaces_by_summary_witness:
  "stored preloaded_session \<noteq> [] \<and>
   fst (summarization_chain summary_chat (stored preloaded_session) preloaded_session) =
     Inr (AIMessage ''The conversation is between Nemo and an AI. Nemo introduces himself and the AI responds with a greeting. Nemo then asks the AI how it is doing, and the AI responds that it is fine.'') \<and>
   stored (snd (summarize_messages summary_chat () preloaded_session)) =
     [AIMessage ''The conversation is between Nemo and an AI. Nemo introduces himself and the AI responds with a greeting. Nemo then asks the AI how it is doing, and the AI responds that it is fine.''] \<and>
   stored empty_session = [] \<and>
   summarize_messages failing_chat () empty_session = (Inr False, empty_session)"
proof -
  let ?r = "AIMessage ''The conversation is between Nemo and an AI. Nemo introduces himself and the AI responds with a greeting. Nemo then asks the AI how it is doing, and the AI responds that it is fine.''"
  have h: "stored preloaded_session \<noteq> [] \<and>
      fst (summarization_chain summary_chat (stored preloaded_session) preloaded_session) = Inr ?r"
    by (simp add: stored_preloaded_session summarization_chain_def chat_invoke_def summary_chat_def)
  have e: "stored empty_session = []"
    by (simp add: empty_session_def stored_def ChatMessageHistory_new_def)
  from h summarize_messages_replaces_by_summary [of preloaded_session summary_chat ?r "()"]
  have 1: "stored (snd (summarize_messages summary_chat () preloaded_session)) = [?r]"
    by blast
  from e summarize_messages_replaces_by_summary [of empty_session failing_chat _ "()"]
  have 2: "summarize_messages failing_chat () empty_session = (Inr False, empty_session)"
    by blast
  from h e 1 2 show ?thesis by blast
qed

text \<open>
  C3. When the summarization chain fails on a non-empty history, \<^verbatim>\<open>summarize_messages\<close>
  fails with the same error (it is propagated, not swallowed); and whenever
  \<^verbatim>\<open>summarize_messages\<close> fails, the history after the call is the history before the
  call.
\<close>

theorem summarize_messages_atomic_on_error:
  "(stored s \<noteq> [] \<and> fst (summarization_chain chat (stored s) s) = Inl e \<longrightarrow>
      fst (summarize_messages chat ci s) = Inl e) \<and>
   (fst (summarize_messages chat ci s) = Inl e \<longrightarrow>
      demo_ephemeral_chat_history (snd (summarize_messages chat ci s)) =
        demo_ephemeral_chat_history s \<and>
      stored (snd (summarize_messages chat ci s)) = stored s)"
  by (auto simp: summarize_messages_def summarization_chain_def chat_invoke_def stored_def
      Let_def add_message_def clear_def split: sum.splits if_splits)

theorem summarize_messages_atomic_on_error_witness:
  "stored preloaded_session \<noteq> [] \<and>
   fst (summarization_chain failing_chat (stored preloaded_session) preloaded_session) =
     Inl (ProviderFailure ''timeout'') \<and>
   fst (summarize_messages failing_chat () preloaded_session) = Inl (ProviderFailure ''timeout'') \<and>
   stored (snd (summarize_messages failing_chat () preloaded_session)) =
     [HumanMessage ''Hey there! I'm Nemo.'', AIMessage ''Hello!'',
      HumanMessage ''How are you today?'', AIMessage ''Fine thanks!'']"
proof -
  have h: "stored preloaded_session \<noteq> [] \<and>
      fst (summarization_chain failing_chat (stored preloaded_session) preloaded_session) =
        Inl (ProviderFailure ''timeout'')"
    by (simp add: stored_preloaded_session summarization_chain_def chat_invoke_def failing_chat_def)
  from h summarize_messages_atomic_on_error
    [of preloaded_session failing_chat "ProviderFailure ''timeout''" "()"]
  have "fst (summarize_messages failing_chat () preloaded_session) = Inl (ProviderFailure ''timeout'')"
    and "stored (snd (summarize_messages failing_chat () preloaded_session)) = stored preloaded_session"
    by blast+
  with h show ?thesis by (simp add: stored_preloaded_session)
qed

text \<open>
  C4. A turn without compaction, as the notebook writes it (store the user message,
  invoke the chain on the stored messages, store the response): when the chain returns
  a response, the turn returns it and the stored sequence is the prior history followed
  by the input message and then the response.
\<close>

theorem manual_turn_appends_request_and_response:
  "fst (chain chat (stored s @ [HumanMessage input1]) s) = Inr response \<Longrightarrow>
     fst (manual_turn chat input1 s) = Inr response \<and>
     stored (snd (manual_turn chat input1 s)) = stored s @ [HumanMessage input1, response]"
  by (auto simp: manual_turn_def chain_def chat_invoke_def stored_def
      Let_def add_message_def add_user_message_def)

theorem manual_turn_appends_request_and_response_witness:
  "stored nemo_session = [HumanMessage ''Hi I'm Nemo''] \<and>
   fst (chain nemo_chat (stored nemo_session @ [HumanMessage ''What's my name?'']) nemo_session) =
     Inr (AIMessage ''Your name is Nemo.'') \<and>
   stored (snd (manual_turn nemo_chat ''What's my name?'' nemo_session)) =
     [HumanMessage ''Hi I'm Nemo'', HumanMessage ''What's my name?'',
      AIMessage ''Your name is Nemo.'']"
proof -
  have s: "stored nemo_session = [HumanMessage ''Hi I'm Nemo'']"
    by (simp add: nemo_session_def stored_def)
  have h: "fst (chain nemo_chat (stored nemo_session @ [HumanMessage ''What's my name?''])
      nemo_session) = Inr (AIMessage ''Your name is Nemo.'')"
    by (simp add: chain_def chat_invoke_def nemo_chat_def)
  from manual_turn_appends_request_and_response [OF h] s h show ?thesis by simp
qed


text \<open>
  C6. After any finite sequence of appends to a fresh history, a read returns exactly
  the appended messages in call order; a read of a fresh history returns the empty
  sequence; a read leaves the history as it is, so a second read returns the same
  sequence.
\<close>

theorem read_returns_appended_in_order:
  "fst (read (add_messages ms ChatMessageHistory_new)) = ms \<and>
   fst (read ChatMessageHistory_new) = [] \<and>
   snd (read h) = h \<and>
   fst (read (snd (read h))) = fst (read h)"
  by (simp add: read_def messages_add_messages ChatMessageHistory_new_def)

text \<open>
  C7. After \<^verbatim>\<open>clear\<close> the history is empty, and clearing twice gives the same state as
  clearing once.
\<close>

theorem clear_idempotent:
  "messages (clear h) = [] \<and> clear (clear h) = clear h"
  by (simp add: clear_def)



text \<open>
  C10 (as amended). For a message whose tool calls all name registered tools and whose
  tool invocations all return, \<^verbatim>\<open>call_tools\<close> returns a list with one entry per tool
  call, in the original order; each entry's "output" is what the named tool returns on
  that entry's "args", and its "name", "args" and "id" are those of the tool call.
\<close>

theorem call_tools_entries:
  assumes "\<forall>tc\<in>set (tool_calls msg).
      \<exists>s a v. map_of tc ''name'' = Some (PyStr s) \<and> s \<in> name ` set tools \<and>
        map_of tc ''args'' = Some a \<and> named_tool_applied tools s a = Inr v"
  shows "\<exists>res. call_tools tools msg = Inr res \<and> length res = length (tool_calls msg) \<and>
     (\<forall>i<length res.
        \<exists>s a v. map_of (tool_calls msg ! i) ''name'' = Some (PyStr s) \<and>
          map_of (tool_calls msg ! i) ''args'' = Some a \<and>
          named_tool_applied tools s a = Inr v \<and>
          map_of (res ! i) ''output'' = Some v \<and>
          map_of (res ! i) ''name'' = map_of (tool_calls msg ! i) ''name'' \<and>
          map_of (res ! i) ''args'' = map_of (tool_calls msg ! i) ''args'' \<and>
          map_of (res ! i) ''id'' = map_of (tool_calls msg ! i) ''id'')"
proof -
  from assms have "\<forall>tc\<in>set (tool_calls msg). tool_call_ok tools tc"
    by (simp add: tool_call_ok_def)
  then obtain res where res: "call_tools_loop (tool_map tools) (tool_calls msg) = Inr res"
      "list_all2 (entry_ok tools) (tool_calls msg) res"
    using call_tools_loop_ok by blast
  have len: "length res = length (tool_calls msg)"
    using res(2) by (simp add: list_all2_lengthD)
  have "entry_ok tools (tool_calls msg ! i) (res ! i)" if "i < length res" for i
    using res(2) that len by (simp add: list_all2_nthD2)
  then show ?thesis
    using res(1) len unfolding call_tools_def entry_ok_def by fastforce
qed

theorem call_tools_entries_witness:
  "length (tool_calls parallel_msg) = 4 \<and>
   named_tool_applied tools_parallel ''multiply''
     (PyDict [(''first_int'', PyInt 23), (''second_int'', PyInt 7)]) = Inr (PyInt 161) \<and>
   named_tool_applied tools_parallel ''multiply''
     (PyDict [(''first_int'', PyInt 5), (''second_int'', PyInt 18)]) = Inr (PyInt 90) \<and>
   named_tool_applied tools_parallel ''add''
     (PyDict [(''first_int'', PyInt 1000000), (''second_int'', PyInt 1000000000)]) =
       Inr (PyInt 1001000000) \<and>
   named_tool_applied tools_parallel ''exponentiate''
     (PyDict [(''base'', PyInt 37), (''exponent'', PyInt 3)]) = Inr (PyInt 50653) \<and>
   (\<exists>res. call_tools tools_parallel parallel_msg = Inr res \<and> length res = 4 \<and>
      map_of (res ! 0) ''output'' = Some (PyInt 161) \<and>
      map_of (res ! 1) ''output'' = Some (PyInt 90) \<and>
      map_of (res ! 2) ''output'' = Some (PyInt 1001000000) \<and>
      map_of (res ! 3) ''output'' = Some (PyInt 50653) \<and>
      map_of (res ! 3) ''name'' = Some (PyStr ''exponentiate'') \<and>
      map_of (res ! 3) ''id'' = Some (PyStr ''call_bnCZIXelOKkmcyd4uGXId9Ct''))"
proof -
  have applied:
    "named_tool_applied tools_parallel ''multiply''
       (PyDict [(''first_int'', PyInt 23), (''second_int'', PyInt 7)]) = Inr (PyInt 161)"
    "named_tool_applied tools_parallel ''multiply''
       (PyDict [(''first_int'', PyInt 5), (''second_int'', PyInt 18)]) = Inr (PyInt 90)"
    "named_tool_applied tools_parallel ''add''
       (PyDict [(''first_int'', PyInt 1000000), (''second_int'', PyInt 1000000000)]) =
         Inr (PyInt 1001000000)"
    "named_tool_applied tools_parallel ''exponentiate''
       (PyDict [(''base'', PyInt 37), (''exponent'', PyInt 3)]) = Inr (PyInt 50653)"
    by (simp_all add: named_tool_applied_def tool_map_tools_parallel
        multiply_def add_def exponentiate_def invoke_int2_def)
  have h: "\<forall>tc\<in>set (tool_calls parallel_msg).
      \<exists>s a v. map_of tc ''name'' = Some (PyStr s) \<and> s \<in> name ` set tools_parallel \<and>
        map_of tc ''args'' = Some a \<and> named_tool_applied tools_parallel s a = Inr v"
    by (simp add: parallel_msg_def names_tools_parallel applied)
  from call_tools_entries [OF h] obtain res where
    "call_tools tools_parallel parallel_msg = Inr res" by blast
  with applied show ?thesis
    by (auto simp: call_tools_parallel_msg) (simp add: parallel_msg_def)
qed

text \<open>
  C10 as it is written fails: registered names are not enough for a result. The call
  \<^verbatim>\<open>exponentiate(base=0, exponent=-1)\<close> names a registered tool, and \<^verbatim>\<open>0 ** -1\<close> raises
  \<^verbatim>\<open>ZeroDivisionError\<close>, which \<^verbatim>\<open>call_tools\<close> does not catch: there is no result list.
\<close>

theorem call_tools_zero_power_counterexample:
  "tool_calls zero_power_msg =
     [[(''name'', PyStr ''exponentiate''),
       (''args'', PyDict [(''base'', PyInt 0), (''exponent'', PyInt (- 1))]),
       (''id'', PyStr ''call_0'')]] \<and>
   ''exponentiate'' \<in> name ` set tools_parallel \<and>
   call_tools tools_parallel zero_power_msg = Inl ZeroDivisionError"
  by (simp add: call_tools_def tool_map_tools_parallel zero_power_msg_def call_tool_def
      getitem_def tool_map_getitem_def exponentiate_def invoke_int2_def names_tools_parallel
      float_overflow_def)

end
